theory Spec2Isabelle
  imports Main "HOL-Library.Word" "HOL-Library.Multiset"
begin

section \<open>JavaScript strings\<close>

text \<open>
  A JavaScript string is a sequence of UTF-16 code units. \<open>js\<close> writes an ASCII literal
  of the source as such a sequence.
\<close>

type_synonym jsstring = "16 word list"

definition js :: "string \<Rightarrow> jsstring" where
  "js s = map of_char s"

text \<open>
  \<open>String.prototype.trim\<close> removes WhiteSpace and LineTerminator code units from both
  ends (ECMAScript: TAB, LF, VT, FF, CR, SP, NBSP, U+1680, U+2000..U+200A, U+2028,
  U+2029, U+202F, U+205F, U+3000, U+FEFF).
\<close>

definition isWhiteSpace :: "16 word \<Rightarrow> bool" where
  "isWhiteSpace c =
     (c = 0x0009 \<or> c = 0x000A \<or> c = 0x000B \<or> c = 0x000C \<or> c = 0x000D \<or> c = 0x0020 \<or>
      c = 0x00A0 \<or> c = 0x1680 \<or> (0x2000 \<le> c \<and> c \<le> 0x200A) \<or> c = 0x2028 \<or>
      c = 0x2029 \<or> c = 0x202F \<or> c = 0x205F \<or> c = 0x3000 \<or> c = 0xFEFF)"

definition trim :: "jsstring \<Rightarrow> jsstring" where
  "trim s = rev (dropWhile isWhiteSpace (rev (dropWhile isWhiteSpace s)))"

text \<open>A string is truthy when it is not empty; \<open>undefined\<close> (\<open>None\<close>) is falsy.\<close>

definition truthy :: "jsstring \<Rightarrow> bool" where
  "truthy s = (s \<noteq> [])"

text \<open>\<open>a || b\<close> on values that are a string or \<open>undefined\<close>.\<close>

definition or_js :: "jsstring option \<Rightarrow> jsstring option \<Rightarrow> jsstring option" where
  "or_js a b = (case a of None \<Rightarrow> b | Some s \<Rightarrow> if truthy s then Some s else b)"

definition or_else :: "jsstring option \<Rightarrow> jsstring \<Rightarrow> jsstring" where
  "or_else a d = (case a of None \<Rightarrow> d | Some s \<Rightarrow> if truthy s then s else d)"

text \<open>\<open>String.prototype.includes\<close>: the argument occurs as a contiguous substring.\<close>

fun startsWith :: "jsstring \<Rightarrow> jsstring \<Rightarrow> bool" where
  "startsWith s [] = True"
| "startsWith [] (p # ps) = False"
| "startsWith (c # cs) (p # ps) = (c = p \<and> startsWith cs ps)"

fun includes_js :: "jsstring \<Rightarrow> jsstring \<Rightarrow> bool" where
  "includes_js [] sub = (sub = [])"
| "includes_js (c # cs) sub = (startsWith (c # cs) sub \<or> includes_js cs sub)"

text \<open>\<open>Number.prototype.toString\<close> of a non-negative integer, as used by a template literal.\<close>

fun toDigits :: "nat \<Rightarrow> nat list" where
  "toDigits n = (if n < 10 then [n] else toDigits (n div 10) @ [n mod 10])"

definition toString :: "nat \<Rightarrow> jsstring" where
  "toString n = map (\<lambda>d. 0x30 + of_nat d) (toDigits n)"

section \<open>ChatComponent.tsx: error classification\<close>

datatype ErrorType = Api | Network | Auth | Timeout | Validation

record ErrorState =
  message :: jsstring
  type :: ErrorType
  retryable :: bool

text \<open>
  The value caught by \<open>handleSendMessage\<close>: an axios error. \<open>response\<close> is absent when no
  HTTP response arrived; \<open>data\<close> and \<open>detail\<close>, \<open>code\<close> and the error's own message may be
  \<open>undefined\<close>.
\<close>

record ErrorData =
  detail :: "jsstring option"

record ErrorResponse =
  status :: int
  data :: "ErrorData option"

record AxiosError =
  response :: "ErrorResponse option"
  code :: "jsstring option"
  message_err :: "jsstring option"

text \<open>\<open>err.code === 'ECONNABORTED' || err.message?.includes('timeout')\<close>\<close>

definition timedOut :: "AxiosError \<Rightarrow> bool" where
  "timedOut err =
     (code err = Some (js ''ECONNABORTED'') \<or>
      (case message_err err of None \<Rightarrow> False | Some m \<Rightarrow> includes_js m (js ''timeout'')))"

text \<open>\<open>err.response?.data?.detail || 'An error occurred'\<close>\<close>

definition detailOf :: "ErrorResponse \<Rightarrow> jsstring" where
  "detailOf resp =
     or_else (case data resp of None \<Rightarrow> None | Some d \<Rightarrow> detail d) (js ''An error occurred'')"

definition classifyError :: "AxiosError \<Rightarrow> ErrorState" where
  "classifyError err =
     (case response err of
        None \<Rightarrow>
          \<lparr>message = js ''Network error. Please check your connection and try again.'',
           type = Network, retryable = True\<rparr>
      | Some resp \<Rightarrow>
          if status resp = 401 then
            \<lparr>message = js ''Your session has expired. Please log in again.'',
             type = Auth, retryable = False\<rparr>
          else if status resp = 403 then
            \<lparr>message = js ''You do not have permission to perform this action.'',
             type = Auth, retryable = False\<rparr>
          else if timedOut err then
            \<lparr>message = js ''Request timed out. Please try again.'',
             type = Timeout, retryable = True\<rparr>
          else if status resp = 400 then
            \<lparr>message = detailOf resp, type = Validation, retryable = False\<rparr>
          else if status resp = 429 then
            \<lparr>message = js ''You're sending messages too quickly. Please wait a moment.'',
             type = Api, retryable = True\<rparr>
          else if status resp \<ge> 500 then
            \<lparr>message = js ''Server error. Please try again later.'',
             type = Api, retryable = True\<rparr>
          else
            \<lparr>message = or_else (Some (detailOf resp)) (js ''Failed to process request''),
             type = Api, retryable = True\<rparr>)"

section \<open>api.ts: the chat and task requests\<close>

text \<open>
  The API client turns each call into one HTTP request. A parameter with a default value
  (\<open>limit: number = 50\<close>) is an optional argument: \<open>None\<close> stands for an omitted one.
\<close>

record TaskBody =
  description_body :: jsstring
  priority_body :: jsstring

datatype Request =
    PostChat jsstring jsstring
  | GetHistory jsstring nat nat
  | PostTask jsstring TaskBody

definition sendMessage :: "jsstring \<Rightarrow> jsstring \<Rightarrow> Request" where
  "sendMessage userId msg = PostChat userId msg"

definition getHistory :: "jsstring \<Rightarrow> nat option \<Rightarrow> nat option \<Rightarrow> Request" where
  "getHistory userId limit offset =
     GetHistory userId (case limit of None \<Rightarrow> 50 | Some l \<Rightarrow> l)
       (case offset of None \<Rightarrow> 0 | Some off \<Rightarrow> off)"

definition createTask :: "jsstring \<Rightarrow> jsstring \<Rightarrow> jsstring option \<Rightarrow> Request" where
  "createTask userId description priority =
     PostTask userId
       \<lparr>description_body = description,
        priority_body = (case priority of None \<Rightarrow> js ''Medium'' | Some p \<Rightarrow> p)\<rparr>"

section \<open>ChatComponent.tsx: the component's state and handlers\<close>

datatype Sender = User | Assistant

text \<open>
  A \<open>Date\<close> is its epoch time in milliseconds, \<open>None\<close> for an invalid date; a timestamp
  of a response is given as the date \<open>new Date\<close> makes of it. A field the server may
  leave out is \<open>None\<close> when it is \<open>undefined\<close>.
\<close>

record Message =
  id_msg :: "jsstring option"
  content :: "jsstring option"
  sender :: Sender
  timestamp :: "int option"

record ChatData =
  assistant_message_id :: "jsstring option"
  user_message_id :: "jsstring option"
  id_data :: "jsstring option"
  assistant_message :: "jsstring option"
  response_data :: "jsstring option"
  timestamp_data :: "int option"

record HistoryData =
  messages_data :: "Message list"

text \<open>
  The backend is not part of the component: it is a parameter that answers a request
  with response data or makes the call throw an axios error.
\<close>

record Server =
  chat :: "Request \<Rightarrow> AxiosError + ChatData"
  history :: "Request \<Rightarrow> AxiosError + HistoryData"

record ChatState =
  messages :: "Message list"
  inputValue :: jsstring
  isLoading :: bool
  error :: "ErrorState option"
  isLoadingHistory :: bool
  lastFailedMessage :: "jsstring option"

text \<open>
  What one run of a handler leaves behind: the component's state, the requests it sent
  in order, and whether it called \<open>onTasksModified\<close>.
\<close>

record Outcome =
  state :: ChatState
  requests :: "Request list"
  tasksModified :: bool

definition loadConversationHistory :: "Server \<Rightarrow> jsstring \<Rightarrow> ChatState \<Rightarrow> Outcome" where
  "loadConversationHistory server userId st =
     (let st1 = st\<lparr>isLoadingHistory := True, error := None\<rparr>;
          req = getHistory userId None None
      in case history server req of
           Inr d \<Rightarrow>
             \<lparr>state = st1\<lparr>messages :=
                         map (\<lambda>msg. \<lparr>id_msg = id_msg msg, content = content msg,
                                      sender = sender msg, timestamp = timestamp msg\<rparr>)
                           (messages_data d),
                       isLoadingHistory := False\<rparr>,
              requests = [req], tasksModified = False\<rparr>
         | Inl err \<Rightarrow>
             \<lparr>state = st1\<lparr>messages := [], isLoadingHistory := False\<rparr>,
              requests = [req], tasksModified = False\<rparr>)"

text \<open>
  \<open>handleSendMessage\<close>. \<open>nowId\<close> is what \<open>Date.now()\<close> returns for the temporary id,
  \<open>nowTs\<close> the time of \<open>new Date()\<close>; \<open>onTasksModified\<close> says whether the optional
  callback was passed. The state updates of one run are applied in the order the handler
  issues them, with no other event of the component in between; logging to the console
  and the client's interceptors (which on status 401 clear the stored token and go to the
  sign-in page before the error reaches the handler) leave the component's state alone.
\<close>

definition handleSendMessage ::
  "Server \<Rightarrow> jsstring \<Rightarrow> bool \<Rightarrow> nat \<Rightarrow> int \<Rightarrow> ChatState \<Rightarrow> Outcome" where
  "handleSendMessage server userId onTasksModified nowId nowTs st =
     (if \<not> truthy (trim (inputValue st)) then
        \<lparr>state = st\<lparr>error := Some \<lparr>message = js ''Message cannot be empty'',
                                  type = Validation, retryable = False\<rparr>\<rparr>,
         requests = [], tasksModified = False\<rparr>
      else
        let userMessage =
              \<lparr>id_msg = Some (js ''temp-'' @ toString nowId), content = Some (inputValue st),
               sender = User, timestamp = Some nowTs\<rparr>;
            st1 = st\<lparr>messages := messages st @ [userMessage], inputValue := [],
                     error := None, isLoading := True,
                     lastFailedMessage := Some (inputValue st)\<rparr>;
            req = sendMessage userId (inputValue st)
        in case chat server req of
             Inr d \<Rightarrow>
               let assistantMessage =
                     \<lparr>id_msg = or_js (assistant_message_id d) (id_data d),
                      content = or_js (assistant_message d) (response_data d),
                      sender = Assistant, timestamp = timestamp_data d\<rparr>;
                   st2 = st1\<lparr>messages :=
                              map (\<lambda>msg. if id_msg msg = id_msg userMessage
                                          then msg\<lparr>id_msg := or_js (user_message_id d) (id_data d)\<rparr>
                                          else msg)
                                (messages st1)\<rparr>;
                   st3 = st2\<lparr>messages := messages st2 @ [assistantMessage],
                            lastFailedMessage := None\<rparr>
               in \<lparr>state = st3\<lparr>isLoading := False\<rparr>, requests = [req],
                   tasksModified = onTasksModified\<rparr>
           | Inl err \<Rightarrow>
               \<lparr>state = st1\<lparr>error := Some (classifyError err),
                            messages := filter (\<lambda>msg. id_msg msg \<noteq> id_msg userMessage)
                                          (messages st1),
                            isLoading := False\<rparr>,
                requests = [req], tasksModified = False\<rparr>)"

section \<open>store.ts: the task store\<close>

record Task =
  id_task :: jsstring
  description :: jsstring
  completed :: bool
  priority :: jsstring
  created_at :: jsstring

text \<open>\<open>Partial<Task>\<close>: every key may be absent (\<open>None\<close>); a key that is present has a value.\<close>

record PartialTask =
  id_upd :: "jsstring option"
  description_upd :: "jsstring option"
  completed_upd :: "bool option"
  priority_upd :: "jsstring option"
  created_at_upd :: "jsstring option"

record TaskState =
  tasks :: "Task list"

text \<open>The object spread \<open>{ ...task, ...updates }\<close>: a key of \<open>updates\<close> wins.\<close>

definition spread :: "Task \<Rightarrow> PartialTask \<Rightarrow> Task" where
  "spread task updates =
     \<lparr>id_task = (case id_upd updates of None \<Rightarrow> id_task task | Some v \<Rightarrow> v),
      description = (case description_upd updates of None \<Rightarrow> description task | Some v \<Rightarrow> v),
      completed = (case completed_upd updates of None \<Rightarrow> completed task | Some v \<Rightarrow> v),
      priority = (case priority_upd updates of None \<Rightarrow> priority task | Some v \<Rightarrow> v),
      created_at = (case created_at_upd updates of None \<Rightarrow> created_at task | Some v \<Rightarrow> v)\<rparr>"

definition setTasks :: "Task list \<Rightarrow> TaskState \<Rightarrow> TaskState" where
  "setTasks ts st = st\<lparr>tasks := ts\<rparr>"

definition addTask :: "Task \<Rightarrow> TaskState \<Rightarrow> TaskState" where
  "addTask task st = st\<lparr>tasks := tasks st @ [task]\<rparr>"

definition updateTask :: "jsstring \<Rightarrow> PartialTask \<Rightarrow> TaskState \<Rightarrow> TaskState" where
  "updateTask taskId updates st =
     st\<lparr>tasks := map (\<lambda>task. if id_task task = taskId then spread task updates else task)
                    (tasks st)\<rparr>"

definition deleteTask :: "jsstring \<Rightarrow> TaskState \<Rightarrow> TaskState" where
  "deleteTask taskId st = st\<lparr>tasks := filter (\<lambda>task. id_task task \<noteq> taskId) (tasks st)\<rparr>"

definition clearTasks :: "TaskState \<Rightarrow> TaskState" where
  "clearTasks st = st\<lparr>tasks := []\<rparr>"

section \<open>The backend's message log\<close>

text \<open>
  Modelled from the spec: a row of the Message Log (spec, section 3,
  ConversationMessage). The backend's chat repository is not among the sources; the
  identifier, the owning user, the content, the sender and the creation timestamp are
  the attributes the spec lists.
\<close>

record ConversationMessage =
  identifier_cm :: nat
  owner :: jsstring
  content_cm :: jsstring
  sender_cm :: Sender
  created :: nat

text \<open>
  Modelled from the spec: the Message Log's store (section 6, "one append-only table
  keyed by (user, creation order) holding message rows"), missing from the sources: the
  rows in insertion order and the next free identifier.
\<close>

record MessageLog =
  rows :: "ConversationMessage list"
  next_identifier :: nat

text \<open>
  Modelled from the spec: the failures of the Message Log (section 7), missing from the
  sources.
\<close>

datatype LogError = ValidationError jsstring

text \<open>
  Modelled from the spec: the Message Log's \<open>append\<close> (section 4.1), missing from the
  sources. It rejects content that is empty after trimming, stores the text as given,
  assigns the server's clock reading \<open>now\<close> as timestamp and writes one row.
\<close>

definition append_log ::
  "nat \<Rightarrow> jsstring \<Rightarrow> jsstring \<Rightarrow> Sender \<Rightarrow> MessageLog \<Rightarrow> LogError + ConversationMessage \<times> MessageLog" where
  "append_log now userId body sndr log =
     (if trim body = [] then Inl (ValidationError (js ''Message cannot be empty''))
      else
        let m = \<lparr>identifier_cm = next_identifier log, owner = userId, content_cm = body,
                 sender_cm = sndr, created = now\<rparr>
        in Inr (m, log\<lparr>rows := rows log @ [m], next_identifier := Suc (next_identifier log)\<rparr>))"

text \<open>
  Modelled from the spec: the rows of one user in insertion order, the Message Log's
  per-user view (section 4.1), missing from the sources.
\<close>

definition rowsOf :: "jsstring \<Rightarrow> MessageLog \<Rightarrow> ConversationMessage list" where
  "rowsOf userId log = filter (\<lambda>m. owner m = userId) (rows log)"

text \<open>
  Modelled from the spec: the Message Log's \<open>list(userId, limit, offset)\<close> (section
  4.1), missing from the sources: the user's rows ascending by creation time, ties in
  insertion order (a stable sort of the rows in insertion order), of which \<open>offset\<close>
  rows are skipped and at most \<open>limit\<close> returned.
\<close>

definition list_log :: "jsstring \<Rightarrow> nat \<Rightarrow> nat \<Rightarrow> MessageLog \<Rightarrow> ConversationMessage list" where
  "list_log userId limit offset log = take limit (drop offset (sort_key created (rowsOf userId log)))"

section \<open>The backend's tool executor\<close>

text \<open>
  Modelled from the spec: the priorities of the Tool Catalogue (section 4.2,
  \<open>enum{Low,Medium,High}\<close>); the backend's tools are not among the sources.
\<close>

datatype Priority = Low | Medium | High

text \<open>
  Modelled from the spec: a task of the Task Store (sections 2 and 6), missing from the
  sources: its identifier, its owner, description, priority and completion.
\<close>

record StoredTask =
  task_id :: jsstring
  owner_id :: jsstring
  description_t :: jsstring
  priority_t :: Priority
  completed_t :: bool

text \<open>
  Modelled from the spec: the Task Store's state (section 6), missing from the sources:
  the tasks in creation order and a counter for fresh identifiers.
\<close>

record TaskStore =
  stored :: "StoredTask list"
  next_id :: nat

text \<open>
  Modelled from the spec: the Task Store's \<open>create(ownerId, description, priority)\<close>
  (section 6), missing from the sources.
\<close>

definition create :: "jsstring \<Rightarrow> jsstring \<Rightarrow> Priority \<Rightarrow> TaskStore \<Rightarrow> StoredTask \<times> TaskStore" where
  "create ownerId d p s =
     (let t = \<lparr>task_id = toString (next_id s), owner_id = ownerId, description_t = d,
               priority_t = p, completed_t = False\<rparr>
      in (t, s\<lparr>stored := stored s @ [t], next_id := Suc (next_id s)\<rparr>))"

text \<open>
  Modelled from the spec: the Task Store's \<open>list(ownerId)\<close> (section 6), missing from
  the sources.
\<close>

definition list_store :: "jsstring \<Rightarrow> TaskStore \<Rightarrow> StoredTask list" where
  "list_store ownerId s = filter (\<lambda>t. owner_id t = ownerId) (stored s)"

text \<open>
  Modelled from the spec: the Task Store's \<open>get(ownerId, taskId)\<close> (section 6), missing
  from the sources; every operation is scoped by the owner, so a task of another owner
  is not found.
\<close>

definition get :: "jsstring \<Rightarrow> jsstring \<Rightarrow> TaskStore \<Rightarrow> StoredTask option" where
  "get ownerId taskId s = find (\<lambda>t. task_id t = taskId \<and> owner_id t = ownerId) (stored s)"

text \<open>
  Modelled from the spec: replacing the owner's task of a given identifier, the write
  shared by the Task Store's \<open>update\<close> and \<open>toggleComplete\<close> (section 6), missing from
  the sources.
\<close>

definition put :: "jsstring \<Rightarrow> jsstring \<Rightarrow> StoredTask \<Rightarrow> TaskStore \<Rightarrow> TaskStore" where
  "put ownerId taskId t' s =
     s\<lparr>stored := map (\<lambda>t. if task_id t = taskId \<and> owner_id t = ownerId then t' else t)
                    (stored s)\<rparr>"

text \<open>
  Modelled from the spec: the Task Store's \<open>update(ownerId, taskId, description?,
  priority?)\<close> (section 6), missing from the sources.
\<close>

definition update ::
  "jsstring \<Rightarrow> jsstring \<Rightarrow> jsstring option \<Rightarrow> Priority option \<Rightarrow> TaskStore \<Rightarrow> (StoredTask \<times> TaskStore) option" where
  "update ownerId taskId d p s =
     (case get ownerId taskId s of
        None \<Rightarrow> None
      | Some t \<Rightarrow>
          let t' = t\<lparr>description_t := (case d of None \<Rightarrow> description_t t | Some v \<Rightarrow> v),
                     priority_t := (case p of None \<Rightarrow> priority_t t | Some v \<Rightarrow> v)\<rparr>
          in Some (t', put ownerId taskId t' s))"

text \<open>
  Modelled from the spec: the Task Store's \<open>delete(ownerId, taskId)\<close> (section 6),
  missing from the sources.
\<close>

definition delete :: "jsstring \<Rightarrow> jsstring \<Rightarrow> TaskStore \<Rightarrow> TaskStore option" where
  "delete ownerId taskId s =
     (case get ownerId taskId s of
        None \<Rightarrow> None
      | Some t \<Rightarrow>
          Some (s\<lparr>stored := filter (\<lambda>t. \<not> (task_id t = taskId \<and> owner_id t = ownerId)) (stored s)\<rparr>))"

text \<open>
  Modelled from the spec: the Task Store's \<open>toggleComplete(ownerId, taskId)\<close> (section
  6), missing from the sources.
\<close>

definition toggleComplete :: "jsstring \<Rightarrow> jsstring \<Rightarrow> TaskStore \<Rightarrow> (StoredTask \<times> TaskStore) option" where
  "toggleComplete ownerId taskId s =
     (case get ownerId taskId s of
        None \<Rightarrow> None
      | Some t \<Rightarrow>
          let t' = t\<lparr>completed_t := \<not> completed_t t\<rparr>
          in Some (t', put ownerId taskId t' s))"

text \<open>
  Modelled from the spec: a ToolInvocationRequest (section 3), missing from the sources:
  the tool's name and the argument mapping from names to values. The acting user is
  never part of it.
\<close>

record ToolInvocationRequest =
  tool_name :: string
  arguments :: "(string \<times> jsstring) list"

text \<open>
  Modelled from the spec: the error conditions of a tool result (section 4.3), missing
  from the sources.
\<close>

datatype FailureReason = TaskNotFound | InvalidParameters | UnknownTool

text \<open>
  Modelled from the spec: the value of a successful tool call (sections 4.3 and 6),
  missing from the sources: a task, the list of the user's tasks, or the \<open>ok\<close> of a
  deletion.
\<close>

datatype ToolValue = TaskValue StoredTask | TaskList "StoredTask list" | Ok

text \<open>
  Modelled from the spec: the outcome of a ToolInvocationResult (section 3,
  success-with-value or failure-with-reason), missing from the sources.
\<close>

datatype ToolOutcome = Success ToolValue | Failure FailureReason

text \<open>
  Modelled from the spec: a ToolInvocationResult (section 3), missing from the sources:
  the tool's name and the outcome. The human-readable summary, whose wording the spec
  leaves open, is left out.
\<close>

record ToolInvocationResult =
  tool :: string
  outcome :: ToolOutcome

text \<open>
  Modelled from the spec: reading a priority argument against the catalogue's enum
  (section 4.2), missing from the sources.
\<close>

definition parsePriority :: "jsstring \<Rightarrow> Priority option" where
  "parsePriority p =
     (if p = js ''Low'' then Some Low
      else if p = js ''Medium'' then Some Medium
      else if p = js ''High'' then Some High
      else None)"

text \<open>
  Modelled from the spec: a present optional priority argument, validated (section 4.2):
  \<open>Inr None\<close> when it is omitted, \<open>Inl\<close> when its value is outside the enum. Missing from
  the sources.
\<close>

definition optionalPriority :: "jsstring option \<Rightarrow> FailureReason + Priority option" where
  "optionalPriority a =
     (case a of
        None \<Rightarrow> Inr None
      | Some p \<Rightarrow> (case parsePriority p of None \<Rightarrow> Inl InvalidParameters | Some pr \<Rightarrow> Inr (Some pr)))"

text \<open>
  Modelled from the spec: the Tool Executor (section 4.3) over the Tool Catalogue
  (section 4.2), missing from the sources. It validates the arguments against the tool's
  schema, calls the Task Store operation of the tool under the authenticated user
  \<open>userId\<close>, and reports a task that is absent or not owned by the caller as not found.
\<close>

definition execute ::
  "jsstring \<Rightarrow> ToolInvocationRequest \<Rightarrow> TaskStore \<Rightarrow> ToolInvocationResult \<times> TaskStore" where
  "execute userId req s =
     (let arg = map_of (arguments req);
          failed = (\<lambda>why. (\<lparr>tool = tool_name req, outcome = Failure why\<rparr>, s));
          succeeded = (\<lambda>v s'. (\<lparr>tool = tool_name req, outcome = Success v\<rparr>, s'))
      in
      if tool_name req = ''add_task'' then
        (case arg ''description'' of
           None \<Rightarrow> failed InvalidParameters
         | Some d \<Rightarrow>
             if d = [] then failed InvalidParameters
             else
               (case optionalPriority (arg ''priority'') of
                  Inl why \<Rightarrow> failed why
                | Inr p \<Rightarrow>
                    let (t, s') = create userId d (case p of None \<Rightarrow> Medium | Some pr \<Rightarrow> pr) s
                    in succeeded (TaskValue t) s'))
      else if tool_name req = ''list_tasks'' then
        succeeded (TaskList (list_store userId s)) s
      else if tool_name req = ''complete_task'' then
        (case arg ''task_id'' of
           None \<Rightarrow> failed InvalidParameters
         | Some taskId \<Rightarrow>
             (case toggleComplete userId taskId s of
                None \<Rightarrow> failed TaskNotFound
              | Some (t, s') \<Rightarrow> succeeded (TaskValue t) s'))
      else if tool_name req = ''delete_task'' then
        (case arg ''task_id'' of
           None \<Rightarrow> failed InvalidParameters
         | Some taskId \<Rightarrow>
             (case delete userId taskId s of
                None \<Rightarrow> failed TaskNotFound
              | Some s' \<Rightarrow> succeeded Ok s'))
      else if tool_name req = ''update_task'' then
        (case arg ''task_id'' of
           None \<Rightarrow> failed InvalidParameters
         | Some taskId \<Rightarrow>
             if arg ''description'' = Some [] then failed InvalidParameters
             else
               (case optionalPriority (arg ''priority'') of
                  Inl why \<Rightarrow> failed why
                | Inr p \<Rightarrow>
                    (case update userId taskId (arg ''description'') p s of
                       None \<Rightarrow> failed TaskNotFound
                     | Some (t, s') \<Rightarrow> succeeded (TaskValue t) s')))
      else failed UnknownTool)"

text \<open>
  Modelled from the spec: the tool loop of the Turn Orchestrator (section 4.5,
  transition 4), missing from the sources: the calls are executed one at a time in the
  order proposed, each on the store the one before it left.
\<close>

fun executeAll ::
  "jsstring \<Rightarrow> ToolInvocationRequest list \<Rightarrow> TaskStore \<Rightarrow> ToolInvocationResult list \<times> TaskStore" where
  "executeAll userId [] s = ([], s)"
| "executeAll userId (c # cs) s =
     (let (r, s1) = execute userId c s;
          (rs, s2) = executeAll userId cs s1
      in (r # rs, s2))"

section \<open>Example inputs\<close>

text \<open>The component's state after mounting (the initial values of its \<open>useState\<close> calls).\<close>

definition initialState :: ChatState where
  "initialState =
     \<lparr>messages = [], inputValue = [], isLoading = False, error = None,
      isLoadingHistory = True, lastFailedMessage = None\<rparr>"

text \<open>A bad-request response that also carries the timeout code.\<close>

definition err400Aborted :: AxiosError where
  "err400Aborted =
     \<lparr>response = Some \<lparr>status = 400, data = Some \<lparr>detail = Some (js ''Message cannot be empty'')\<rparr>\<rparr>,
      code = Some (js ''ECONNABORTED''), message_err = None\<rparr>"

definition err400 :: AxiosError where
  "err400 =
     \<lparr>response = Some \<lparr>status = 400, data = Some \<lparr>detail = Some (js ''Message cannot be empty'')\<rparr>\<rparr>,
      code = Some (js ''ERR_BAD_REQUEST''),
      message_err = Some (js ''Request failed with status code 400'')\<rparr>"

text \<open>
  Example backends. \<open>upstreamDown\<close> answers every chat request with 503 (the AI service
  is unavailable) and has an empty history; \<open>replying\<close> answers a chat request with the
  response of the design (\<open>id\<close>, \<open>response\<close>, \<open>timestamp\<close>); \<open>forbidding\<close> rejects every
  request with 403.
\<close>

definition err503 :: AxiosError where
  "err503 =
     \<lparr>response = Some \<lparr>status = 503,
        data = Some \<lparr>detail = Some (js ''AI service temporarily unavailable. Please try again.'')\<rparr>\<rparr>,
      code = Some (js ''ERR_BAD_RESPONSE''),
      message_err = Some (js ''Request failed with status code 503'')\<rparr>"

definition err403 :: AxiosError where
  "err403 =
     \<lparr>response = Some \<lparr>status = 403, data = Some \<lparr>detail = Some (js ''Forbidden'')\<rparr>\<rparr>,
      code = Some (js ''ERR_BAD_REQUEST''),
      message_err = Some (js ''Request failed with status code 403'')\<rparr>"

definition errOffline :: AxiosError where
  "errOffline =
     \<lparr>response = None, code = Some (js ''ERR_NETWORK''), message_err = Some (js ''Network Error'')\<rparr>"

definition upstreamDown :: Server where
  "upstreamDown = \<lparr>chat = (\<lambda>r. Inl err503), history = (\<lambda>r. Inr \<lparr>messages_data = []\<rparr>)\<rparr>"

definition forbidding :: Server where
  "forbidding = \<lparr>chat = (\<lambda>r. Inl err403), history = (\<lambda>r. Inl err403)\<rparr>"

definition reply :: ChatData where
  "reply =
     \<lparr>assistant_message_id = None, user_message_id = None, id_data = Some (js ''m2''),
      assistant_message = None, response_data = Some (js ''Added buy milk''),
      timestamp_data = Some 1700000001000\<rparr>"

definition replying :: Server where
  "replying = \<lparr>chat = (\<lambda>r. Inr reply), history = (\<lambda>r. Inr \<lparr>messages_data = []\<rparr>)\<rparr>"

text \<open>A conversation of one earlier exchange, with a new message typed in.\<close>

definition earlier :: "Message list" where
  "earlier =
     [\<lparr>id_msg = Some (js ''h1''), content = Some (js ''hello''), sender = User,
       timestamp = Some 1699999990000\<rparr>,
      \<lparr>id_msg = Some (js ''h2''), content = Some (js ''Hi there''), sender = Assistant,
       timestamp = Some 1699999991000\<rparr>]"

definition typed :: ChatState where
  "typed =
     \<lparr>messages = earlier, inputValue = js ''Add a task to buy milk'', isLoading = False,
      error = None, isLoadingHistory = False, lastFailedMessage = None\<rparr>"

text \<open>
  A log of two users written through \<open>append_log\<close>: user A's rows carry the clock
  readings 5, 3 and 5 in insertion order, user B's row the reading 4.
\<close>

definition exampleLog :: MessageLog where
  "exampleLog =
     \<lparr>rows =
        [\<lparr>identifier_cm = 0, owner = js ''A'', content_cm = js ''first'', sender_cm = User, created = 5\<rparr>,
         \<lparr>identifier_cm = 1, owner = js ''B'', content_cm = js ''other'', sender_cm = User, created = 4\<rparr>,
         \<lparr>identifier_cm = 2, owner = js ''A'', content_cm = js ''second'', sender_cm = Assistant, created = 3\<rparr>,
         \<lparr>identifier_cm = 3, owner = js ''A'', content_cm = js ''third'', sender_cm = User, created = 5\<rparr>],
      next_identifier = 4\<rparr>"

text \<open>An empty task store, and the calls "add a task, then list the tasks".\<close>

definition emptyStore :: TaskStore where
  "emptyStore = \<lparr>stored = [], next_id = 0\<rparr>"

definition addMilk :: ToolInvocationRequest where
  "addMilk = \<lparr>tool_name = ''add_task'', arguments = [(''description'', js ''buy milk'')]\<rparr>"

definition listAll :: ToolInvocationRequest where
  "listAll = \<lparr>tool_name = ''list_tasks'', arguments = []\<rparr>"

definition milk :: StoredTask where
  "milk =
     \<lparr>task_id = js ''0'', owner_id = js ''u1'', description_t = js ''buy milk'',
      priority_t = Medium, completed_t = False\<rparr>"

definition exampleTasks :: TaskState where
  "exampleTasks =
     \<lparr>tasks =
        [\<lparr>id_task = js ''a'', description = js ''buy milk'', completed = False,
          priority = js ''Medium'', created_at = js ''2024-01-01''\<rparr>,
         \<lparr>id_task = js ''b'', description = js ''call mom'', completed = False,
          priority = js ''High'', created_at = js ''2024-01-02''\<rparr>]\<rparr>"

text \<open>The updates of \<open>handleEdit\<close> (description and priority) and of \<open>handleToggleComplete\<close>.\<close>

definition editTask :: PartialTask where
  "editTask =
     \<lparr>id_upd = None, description_upd = Some (js ''call dad''), completed_upd = None,
      priority_upd = Some (js ''Low''), created_at_upd = None\<rparr>"

definition markCompleted :: PartialTask where
  "markCompleted =
     \<lparr>id_upd = None, description_upd = None, completed_upd = Some True,
      priority_upd = None, created_at_upd = None\<rparr>"

section \<open>Error classification: results\<close>

text \<open>
  C9 (as amended). \<open>classifyError\<close> is a total function into the five error types.
  An error without a response is a retryable network error; status 401 and 403 are
  non-retryable auth errors; otherwise an error that carries the code ECONNABORTED or a
  message containing "timeout" is a retryable timeout error, whatever its status (the
  timeout test stands before the test for status 400); status 400 without such a mark is
  a non-retryable validation error showing the server's detail; status 429, status of
  500 and above, and everything left are retryable. Only auth and validation errors are
  not retryable.
\<close>

theorem classifyError_classes:
  "(response err = None \<longrightarrow>
      type (classifyError err) = Network \<and> retryable (classifyError err)) \<and>
   (\<forall>resp. response err = Some resp \<longrightarrow>
      ((status resp = 401 \<or> status resp = 403) \<longrightarrow>
         type (classifyError err) = Auth \<and> \<not> retryable (classifyError err)) \<and>
      (status resp \<noteq> 401 \<and> status resp \<noteq> 403 \<and> timedOut err \<longrightarrow>
         type (classifyError err) = Timeout \<and> retryable (classifyError err)) \<and>
      (status resp = 400 \<and> \<not> timedOut err \<longrightarrow>
         type (classifyError err) = Validation \<and> \<not> retryable (classifyError err) \<and>
         message (classifyError err) = detailOf resp) \<and>
      (status resp \<noteq> 400 \<and> status resp \<noteq> 401 \<and> status resp \<noteq> 403 \<and> \<not> timedOut err \<longrightarrow>
         type (classifyError err) = Api) \<and>
      (status resp \<noteq> 400 \<and> status resp \<noteq> 401 \<and> status resp \<noteq> 403 \<longrightarrow>
         retryable (classifyError err))) \<and>
   (retryable (classifyError err) \<longleftrightarrow>
      type (classifyError err) \<noteq> Auth \<and> type (classifyError err) \<noteq> Validation)"
  by (cases "response err") (auto simp: classifyError_def)

theorem classifyError_classes_witness:
  "type (classifyError err400) = Validation \<and> \<not> retryable (classifyError err400) \<and>
   message (classifyError err400) = js ''Message cannot be empty'' \<and>
   type (classifyError err403) = Auth \<and> \<not> retryable (classifyError err403) \<and>
   type (classifyError err503) = Api \<and> retryable (classifyError err503) \<and>
   type (classifyError errOffline) = Network \<and> retryable (classifyError errOffline) \<and>
   type (classifyError err400Aborted) = Timeout"
proof -
  have r: "response err400 =
      Some \<lparr>status = 400, data = Some \<lparr>detail = Some (js ''Message cannot be empty'')\<rparr>\<rparr>"
    by (simp add: err400_def)
  have t: "\<not> timedOut err400"
    by (simp add: timedOut_def err400_def js_def)
  have d: "detailOf \<lparr>status = 400, data = Some \<lparr>detail = Some (js ''Message cannot be empty'')\<rparr>\<rparr>
             = js ''Message cannot be empty''"
    by (simp add: detailOf_def or_else_def truthy_def js_def)
  from classifyError_classes [of err400] r t d
  have a: "type (classifyError err400) = Validation \<and> \<not> retryable (classifyError err400) \<and>
      message (classifyError err400) = js ''Message cannot be empty''"
    by simp
  have r3: "response err403 = Some \<lparr>status = 403, data = Some \<lparr>detail = Some (js ''Forbidden'')\<rparr>\<rparr>"
    by (simp add: err403_def)
  from classifyError_classes [of err403] r3
  have b: "type (classifyError err403) = Auth \<and> \<not> retryable (classifyError err403)"
    by simp
  have r5: "response err503 = Some \<lparr>status = 503,
      data = Some \<lparr>detail = Some (js ''AI service temporarily unavailable. Please try again.'')\<rparr>\<rparr>"
    by (simp add: err503_def)
  have t5: "\<not> timedOut err503"
    by (simp add: timedOut_def err503_def js_def)
  from classifyError_classes [of err503] r5 t5
  have c: "type (classifyError err503) = Api \<and> retryable (classifyError err503)"
    by simp
  have r0: "response errOffline = None"
    by (simp add: errOffline_def)
  from classifyError_classes [of errOffline] r0
  have e: "type (classifyError errOffline) = Network \<and> retryable (classifyError errOffline)"
    by simp
  have r4: "response err400Aborted =
      Some \<lparr>status = 400, data = Some \<lparr>detail = Some (js ''Message cannot be empty'')\<rparr>\<rparr>"
    by (simp add: err400Aborted_def)
  have t4: "timedOut err400Aborted"
    by (simp add: timedOut_def err400Aborted_def)
  from classifyError_classes [of err400Aborted] r4 t4
  have f: "type (classifyError err400Aborted) = Timeout"
    by simp
  from a b c e f show ?thesis
    by blast
qed

text \<open>
  The claim as stated fails: a response with status 400 that carries the timeout code is
  classified as a retryable timeout, not as a validation error.
\<close>

theorem classifyError_400_aborted_counterexample:
  "map_option status (response err400Aborted) = Some 400 \<and>
   type (classifyError err400Aborted) = Timeout \<and>
   type (classifyError err400Aborted) \<noteq> Validation \<and>
   retryable (classifyError err400Aborted)"
  by (simp add: classifyError_def err400Aborted_def timedOut_def)

section \<open>Strings: lemmas\<close>

lemma trim_blank:
  assumes "\<forall>c \<in> set s. isWhiteSpace c"
  shows "trim s = []"
proof -
  from assms have d: "dropWhile isWhiteSpace s = []"
    by simp
  show ?thesis
    unfolding trim_def d by simp
qed

section \<open>Sending a message: results\<close>

text \<open>
  C2. When the input is empty or consists of whitespace only, \<open>handleSendMessage\<close> ends
  with the validation error "Message cannot be empty" (not retryable); the message list
  and every other part of the state stay as they were, and no request is sent, so nothing
  reaches the backend that could store a message or call the agent.
\<close>

theorem handleSendMessage_blank_rejected:
  assumes "\<forall>c \<in> set (inputValue st). isWhiteSpace c"
  shows "handleSendMessage server userId onTasksModified nowId nowTs st =
           \<lparr>state = st\<lparr>error := Some \<lparr>message = js ''Message cannot be empty'',
                                     type = Validation, retryable = False\<rparr>\<rparr>,
            requests = [], tasksModified = False\<rparr>"
proof -
  from assms have "trim (inputValue st) = []"
    by (rule trim_blank)
  then show ?thesis
    by (simp add: handleSendMessage_def truthy_def)
qed

theorem handleSendMessage_blank_rejected_witness:
  "handleSendMessage upstreamDown (js ''u1'') True 1700000000000 1700000000000
      (typed\<lparr>inputValue := js ''  ''\<rparr>) =
     \<lparr>state = typed\<lparr>inputValue := js ''  '',
                     error := Some \<lparr>message = js ''Message cannot be empty'',
                                    type = Validation, retryable = False\<rparr>\<rparr>,
      requests = [], tasksModified = False\<rparr>"
proof -
  have h: "\<forall>c \<in> set (inputValue (typed\<lparr>inputValue := js ''  ''\<rparr>)). isWhiteSpace c"
    by (simp add: js_def isWhiteSpace_def)
  show ?thesis
    unfolding handleSendMessage_blank_rejected [OF h] by simp
qed

text \<open>
  What the component does with a successful turn. For a message that is not empty after
  trimming and a chat request that succeeds, the handler sends exactly one request, for
  the component's user and with the text as typed, and extends its message list by
  exactly two entries: the user's message with that text, then the assistant's message
  with the reply of the response. The earlier entries keep their senders and contents,
  no error is left and nothing is kept for a retry. What the backend stores is not part
  of this.
\<close>

lemma handleSendMessage_success_pair:
  assumes "truthy (trim (inputValue st))"
    and "chat server (PostChat userId (inputValue st)) = Inr d"
  shows "requests (handleSendMessage server userId onTasksModified nowId nowTs st) =
           [PostChat userId (inputValue st)] \<and>
         map sender (messages (state (handleSendMessage server userId onTasksModified nowId nowTs st))) =
           map sender (messages st) @ [User, Assistant] \<and>
         map content (messages (state (handleSendMessage server userId onTasksModified nowId nowTs st))) =
           map content (messages st) @
             [Some (inputValue st), or_js (assistant_message d) (response_data d)] \<and>
         error (state (handleSendMessage server userId onTasksModified nowId nowTs st)) = None \<and>
         lastFailedMessage (state (handleSendMessage server userId onTasksModified nowId nowTs st)) = None"
proof -
  let ?tmp = "Some (js ''temp-'' @ toString nowId)"
  let ?f = "\<lambda>msg. if id_msg msg = ?tmp
                    then msg\<lparr>id_msg := or_js (user_message_id d) (id_data d)\<rparr> else msg"
  have s: "map sender (map ?f xs) = map sender xs" for xs
    by (induction xs) auto
  have c: "map content (map ?f xs) = map content xs" for xs
    by (induction xs) auto
  from assms show ?thesis
    by (simp add: handleSendMessage_def sendMessage_def Let_def s c)
qed

lemma handleSendMessage_success_pair_example:
  "map sender (messages (state (handleSendMessage replying (js ''u1'') True
      1700000000000 1700000000000 typed))) = [User, Assistant, User, Assistant] \<and>
   map content (messages (state (handleSendMessage replying (js ''u1'') True
      1700000000000 1700000000000 typed))) =
     [Some (js ''hello''), Some (js ''Hi there''), Some (js ''Add a task to buy milk''),
      Some (js ''Added buy milk'')] \<and>
   requests (handleSendMessage replying (js ''u1'') True 1700000000000 1700000000000 typed) =
     [PostChat (js ''u1'') (js ''Add a task to buy milk'')]"
proof -
  have t: "truthy (trim (inputValue typed))"
    by (simp add: typed_def trim_def truthy_def js_def isWhiteSpace_def)
  have r: "chat replying (PostChat (js ''u1'') (inputValue typed)) = Inr reply"
    by (simp add: replying_def)
  have o: "or_js (assistant_message reply) (response_data reply) = Some (js ''Added buy milk'')"
    by (simp add: reply_def or_js_def)
  have m: "map sender (messages typed) = [User, Assistant]"
    "map content (messages typed) = [Some (js ''hello''), Some (js ''Hi there'')]"
    "inputValue typed = js ''Add a task to buy milk''"
    by (simp_all add: typed_def earlier_def)
  from handleSendMessage_success_pair [OF t r, of True 1700000000000 1700000000000]
  show ?thesis
    by (simp add: o m)
qed

text \<open>
  What the component does with a failed turn. For a message that is not empty after
  trimming and a chat request that fails, the handler adds no entry: its message list is
  the earlier one without the temporary entry of the user, which it removes. The failure
  is shown as \<open>classifyError\<close> classifies it, retryable when no response arrived or the
  status is 500 or above; the submitted text is kept in \<open>lastFailedMessage\<close> for a
  retry, the input field is cleared and the callback is not called. Whether the backend
  kept the message is not part of this: a later load of the history shows whatever the
  backend returns.
\<close>

lemma handleSendMessage_failure:
  assumes "truthy (trim (inputValue st))"
    and "chat server (PostChat userId (inputValue st)) = Inl err"
  shows "messages (state (handleSendMessage server userId onTasksModified nowId nowTs st)) =
           filter (\<lambda>msg. id_msg msg \<noteq> Some (js ''temp-'' @ toString nowId)) (messages st) \<and>
         error (state (handleSendMessage server userId onTasksModified nowId nowTs st)) =
           Some (classifyError err) \<and>
         ((response err = None \<or> (\<exists>resp. response err = Some resp \<and> 500 \<le> status resp)) \<longrightarrow>
            retryable (classifyError err)) \<and>
         lastFailedMessage (state (handleSendMessage server userId onTasksModified nowId nowTs st)) =
           Some (inputValue st) \<and>
         inputValue (state (handleSendMessage server userId onTasksModified nowId nowTs st)) = [] \<and>
         \<not> isLoading (state (handleSendMessage server userId onTasksModified nowId nowTs st)) \<and>
         requests (handleSendMessage server userId onTasksModified nowId nowTs st) =
           [PostChat userId (inputValue st)] \<and>
         \<not> tasksModified (handleSendMessage server userId onTasksModified nowId nowTs st)"
proof -
  have r: "(response err = None \<or> (\<exists>resp. response err = Some resp \<and> 500 \<le> status resp)) \<longrightarrow>
            retryable (classifyError err)"
    by (cases "response err") (auto simp: classifyError_def)
  from assms have "handleSendMessage server userId onTasksModified nowId nowTs st =
      \<lparr>state = st\<lparr>messages := filter (\<lambda>msg. id_msg msg \<noteq> Some (js ''temp-'' @ toString nowId))
                                   (messages st),
                   inputValue := [], error := Some (classifyError err), isLoading := False,
                   lastFailedMessage := Some (inputValue st)\<rparr>,
       requests = [PostChat userId (inputValue st)], tasksModified = False\<rparr>"
    by (simp add: handleSendMessage_def sendMessage_def Let_def)
  with r show ?thesis
    by simp
qed

lemma handleSendMessage_failure_example:
  "messages (state (handleSendMessage upstreamDown (js ''u1'') True
      1700000000000 1700000000000 typed)) = earlier \<and>
   error (state (handleSendMessage upstreamDown (js ''u1'') True
      1700000000000 1700000000000 typed)) =
     Some \<lparr>message = js ''Server error. Please try again later.'', type = Api, retryable = True\<rparr> \<and>
   lastFailedMessage (state (handleSendMessage upstreamDown (js ''u1'') True
      1700000000000 1700000000000 typed)) = Some (js ''Add a task to buy milk'')"
proof -
  have t: "truthy (trim (inputValue typed))"
    by (simp add: typed_def trim_def truthy_def js_def isWhiteSpace_def)
  have r: "chat upstreamDown (PostChat (js ''u1'') (inputValue typed)) = Inl err503"
    by (simp add: upstreamDown_def)
  have f: "filter (\<lambda>msg. id_msg msg \<noteq> Some (js ''temp-'' @ toString 1700000000000)) (messages typed)
             = earlier"
    by (simp add: typed_def earlier_def js_def)
  have c: "classifyError err503 =
      \<lparr>message = js ''Server error. Please try again later.'', type = Api, retryable = True\<rparr>"
    by (simp add: classifyError_def err503_def timedOut_def js_def)
  have i: "inputValue typed = js ''Add a task to buy milk''"
    by (simp add: typed_def)
  from handleSendMessage_failure [OF t r, of True 1700000000000 1700000000000]
  show ?thesis
    by (simp add: f c i)
qed

section \<open>Loading the history: results\<close>

text \<open>
  What the component does when it loads the history. \<open>loadConversationHistory\<close> sends
  exactly one request, for the history of the component's own user (limit 50, offset 0).
  When it succeeds the message list is exactly the messages of the response, in their
  order, whatever the backend chose to return. When it fails, with an authorization
  error or any other, the message list is empty and no error is shown.
\<close>

lemma loadConversationHistory_result:
  "requests (loadConversationHistory server userId st) = [GetHistory userId 50 0] \<and>
   error (state (loadConversationHistory server userId st)) = None \<and>
   \<not> isLoadingHistory (state (loadConversationHistory server userId st)) \<and>
   (\<forall>d. history server (GetHistory userId 50 0) = Inr d \<longrightarrow>
      messages (state (loadConversationHistory server userId st)) = messages_data d) \<and>
   (\<forall>err. history server (GetHistory userId 50 0) = Inl err \<longrightarrow>
      messages (state (loadConversationHistory server userId st)) = [])"
proof -
  have e: "map (\<lambda>msg. \<lparr>id_msg = id_msg msg, content = content msg, sender = sender msg,
                       timestamp = timestamp msg\<rparr>) xs = xs" for xs :: "Message list"
    by (induction xs) auto
  show ?thesis
    by (cases "history server (GetHistory userId 50 0)")
       (simp_all add: loadConversationHistory_def getHistory_def Let_def e)
qed

lemma loadConversationHistory_result_example:
  "messages (state (loadConversationHistory forbidding (js ''userB'') initialState)) = [] \<and>
   messages (state (loadConversationHistory replying (js ''userA'') initialState)) = [] \<and>
   requests (loadConversationHistory replying (js ''userA'') initialState) =
     [GetHistory (js ''userA'') 50 0]"
proof -
  have f: "history forbidding (GetHistory (js ''userB'') 50 0) = Inl err403"
    by (simp add: forbidding_def)
  have r: "history replying (GetHistory (js ''userA'') 50 0) = Inr \<lparr>messages_data = []\<rparr>"
    by (simp add: replying_def)
  from loadConversationHistory_result [of forbidding "js ''userB''" initialState]
       loadConversationHistory_result [of replying "js ''userA''" initialState] f r
  show ?thesis
    by simp
qed

text \<open>
  The request of the example is rejected with 403, which \<open>classifyError\<close> would class
  as an authorization error; the loader does not classify it, and the component ends in
  the state an empty history gives.
\<close>

lemma loadConversationHistory_forbidden_example:
  "history forbidding (GetHistory (js ''userB'') 50 0) = Inl err403 \<and>
   type (classifyError err403) = Auth \<and>
   error (state (loadConversationHistory forbidding (js ''userB'') initialState)) = None \<and>
   state (loadConversationHistory forbidding (js ''userB'') initialState) =
     state (loadConversationHistory replying (js ''userB'') initialState)"
  by (simp add: loadConversationHistory_def getHistory_def Let_def forbidding_def replying_def
      classifyError_def err403_def)

section \<open>The task store: results\<close>

lemma spread_fields:
  "id_task (spread task updates) =
     (case id_upd updates of None \<Rightarrow> id_task task | Some v \<Rightarrow> v) \<and>
   description (spread task updates) =
     (case description_upd updates of None \<Rightarrow> description task | Some v \<Rightarrow> v) \<and>
   completed (spread task updates) =
     (case completed_upd updates of None \<Rightarrow> completed task | Some v \<Rightarrow> v) \<and>
   priority (spread task updates) =
     (case priority_upd updates of None \<Rightarrow> priority task | Some v \<Rightarrow> v) \<and>
   created_at (spread task updates) =
     (case created_at_upd updates of None \<Rightarrow> created_at task | Some v \<Rightarrow> v)"
  by (simp add: spread_def)

text \<open>
  C10. \<open>updateTask\<close> keeps the length and the order of the task list: at every position
  the task is the old one with the updates merged into it when its id is \<open>taskId\<close>, and
  the old one unchanged otherwise. Merged means, field by field: a field the updates
  give has the given value afterwards, and a field they leave out keeps its old value.
  When no task has that id the store is unchanged.
\<close>

theorem updateTask_frame:
  "length (tasks (updateTask taskId updates st)) = length (tasks st) \<and>
   (\<forall>i < length (tasks st).
      tasks (updateTask taskId updates st) ! i =
        (if id_task (tasks st ! i) = taskId then spread (tasks st ! i) updates
         else tasks st ! i)) \<and>
   (\<forall>i < length (tasks st). id_task (tasks st ! i) = taskId \<longrightarrow>
      (\<forall>v. id_upd updates = Some v \<longrightarrow>
         id_task (tasks (updateTask taskId updates st) ! i) = v) \<and>
      (id_upd updates = None \<longrightarrow>
         id_task (tasks (updateTask taskId updates st) ! i) = id_task (tasks st ! i)) \<and>
      (\<forall>v. description_upd updates = Some v \<longrightarrow>
         description (tasks (updateTask taskId updates st) ! i) = v) \<and>
      (description_upd updates = None \<longrightarrow>
         description (tasks (updateTask taskId updates st) ! i) = description (tasks st ! i)) \<and>
      (\<forall>v. completed_upd updates = Some v \<longrightarrow>
         completed (tasks (updateTask taskId updates st) ! i) = v) \<and>
      (completed_upd updates = None \<longrightarrow>
         completed (tasks (updateTask taskId updates st) ! i) = completed (tasks st ! i)) \<and>
      (\<forall>v. priority_upd updates = Some v \<longrightarrow>
         priority (tasks (updateTask taskId updates st) ! i) = v) \<and>
      (priority_upd updates = None \<longrightarrow>
         priority (tasks (updateTask taskId updates st) ! i) = priority (tasks st ! i)) \<and>
      (\<forall>v. created_at_upd updates = Some v \<longrightarrow>
         created_at (tasks (updateTask taskId updates st) ! i) = v) \<and>
      (created_at_upd updates = None \<longrightarrow>
         created_at (tasks (updateTask taskId updates st) ! i) = created_at (tasks st ! i))) \<and>
   ((\<forall>task \<in> set (tasks st). id_task task \<noteq> taskId) \<longrightarrow> updateTask taskId updates st = st)"
proof -
  let ?f = "\<lambda>task. if id_task task = taskId then spread task updates else task"
  have a: "length (tasks (updateTask taskId updates st)) = length (tasks st)"
    by (simp add: updateTask_def)
  have b: "\<forall>i < length (tasks st). tasks (updateTask taskId updates st) ! i = ?f (tasks st ! i)"
    by (simp add: updateTask_def)
  have d: "\<forall>i < length (tasks st). id_task (tasks st ! i) = taskId \<longrightarrow>
      (\<forall>v. id_upd updates = Some v \<longrightarrow>
         id_task (tasks (updateTask taskId updates st) ! i) = v) \<and>
      (id_upd updates = None \<longrightarrow>
         id_task (tasks (updateTask taskId updates st) ! i) = id_task (tasks st ! i)) \<and>
      (\<forall>v. description_upd updates = Some v \<longrightarrow>
         description (tasks (updateTask taskId updates st) ! i) = v) \<and>
      (description_upd updates = None \<longrightarrow>
         description (tasks (updateTask taskId updates st) ! i) = description (tasks st ! i)) \<and>
      (\<forall>v. completed_upd updates = Some v \<longrightarrow>
         completed (tasks (updateTask taskId updates st) ! i) = v) \<and>
      (completed_upd updates = None \<longrightarrow>
         completed (tasks (updateTask taskId updates st) ! i) = completed (tasks st ! i)) \<and>
      (\<forall>v. priority_upd updates = Some v \<longrightarrow>
         priority (tasks (updateTask taskId updates st) ! i) = v) \<and>
      (priority_upd updates = None \<longrightarrow>
         priority (tasks (updateTask taskId updates st) ! i) = priority (tasks st ! i)) \<and>
      (\<forall>v. created_at_upd updates = Some v \<longrightarrow>
         created_at (tasks (updateTask taskId updates st) ! i) = v) \<and>
      (created_at_upd updates = None \<longrightarrow>
         created_at (tasks (updateTask taskId updates st) ! i) = created_at (tasks st ! i))"
  proof (intro allI impI)
    fix i
    assume "i < length (tasks st)" and "id_task (tasks st ! i) = taskId"
    with b have e: "tasks (updateTask taskId updates st) ! i = spread (tasks st ! i) updates"
      by simp
    from spread_fields [of "tasks st ! i" updates]
    show "(\<forall>v. id_upd updates = Some v \<longrightarrow>
         id_task (tasks (updateTask taskId updates st) ! i) = v) \<and>
      (id_upd updates = None \<longrightarrow>
         id_task (tasks (updateTask taskId updates st) ! i) = id_task (tasks st ! i)) \<and>
      (\<forall>v. description_upd updates = Some v \<longrightarrow>
         description (tasks (updateTask taskId updates st) ! i) = v) \<and>
      (description_upd updates = None \<longrightarrow>
         description (tasks (updateTask taskId updates st) ! i) = description (tasks st ! i)) \<and>
      (\<forall>v. completed_upd updates = Some v \<longrightarrow>
         completed (tasks (updateTask taskId updates st) ! i) = v) \<and>
      (completed_upd updates = None \<longrightarrow>
         completed (tasks (updateTask taskId updates st) ! i) = completed (tasks st ! i)) \<and>
      (\<forall>v. priority_upd updates = Some v \<longrightarrow>
         priority (tasks (updateTask taskId updates st) ! i) = v) \<and>
      (priority_upd updates = None \<longrightarrow>
         priority (tasks (updateTask taskId updates st) ! i) = priority (tasks st ! i)) \<and>
      (\<forall>v. created_at_upd updates = Some v \<longrightarrow>
         created_at (tasks (updateTask taskId updates st) ! i) = v) \<and>
      (created_at_upd updates = None \<longrightarrow>
         created_at (tasks (updateTask taskId updates st) ! i) = created_at (tasks st ! i))"
      unfolding e by simp
  qed
  have c: "(\<forall>task \<in> set (tasks st). id_task task \<noteq> taskId) \<longrightarrow> updateTask taskId updates st = st"
  proof
    assume "\<forall>task \<in> set (tasks st). id_task task \<noteq> taskId"
    then have "map ?f (tasks st) = tasks st"
      by (simp add: map_idI)
    then show "updateTask taskId updates st = st"
      by (simp add: updateTask_def)
  qed
  show ?thesis
    using a b d c
    by - (rule conjI, assumption, rule conjI, assumption, rule conjI, assumption, assumption)
qed

theorem updateTask_frame_witness:
  "tasks (updateTask (js ''b'') editTask exampleTasks) ! 0 = tasks exampleTasks ! 0 \<and>
   id_task (tasks (updateTask (js ''b'') editTask exampleTasks) ! 1) = js ''b'' \<and>
   description (tasks (updateTask (js ''b'') editTask exampleTasks) ! 1) = js ''call dad'' \<and>
   completed (tasks (updateTask (js ''b'') editTask exampleTasks) ! 1) = False \<and>
   priority (tasks (updateTask (js ''b'') editTask exampleTasks) ! 1) = js ''Low'' \<and>
   created_at (tasks (updateTask (js ''b'') editTask exampleTasks) ! 1) = js ''2024-01-02'' \<and>
   completed (tasks (updateTask (js ''b'') markCompleted exampleTasks) ! 1) = True \<and>
   description (tasks (updateTask (js ''b'') markCompleted exampleTasks) ! 1) = js ''call mom'' \<and>
   updateTask (js ''zz'') markCompleted exampleTasks = exampleTasks"
proof -
  have l: "0 < length (tasks exampleTasks)" "1 < length (tasks exampleTasks)"
    by (simp_all add: exampleTasks_def)
  have n: "\<forall>task \<in> set (tasks exampleTasks). id_task task \<noteq> js ''zz''"
    by (simp add: exampleTasks_def js_def)
  have i0: "id_task (tasks exampleTasks ! 0) \<noteq> js ''b''"
    by (simp add: exampleTasks_def js_def)
  have i1: "id_task (tasks exampleTasks ! 1) = js ''b''"
    by (simp add: exampleTasks_def)
  have old: "description (tasks exampleTasks ! 1) = js ''call mom''"
    "completed (tasks exampleTasks ! 1) = False"
    "created_at (tasks exampleTasks ! 1) = js ''2024-01-02''"
    by (simp_all add: exampleTasks_def)
  have e: "id_upd editTask = None" "description_upd editTask = Some (js ''call dad'')"
    "completed_upd editTask = None" "priority_upd editTask = Some (js ''Low'')"
    "created_at_upd editTask = None"
    by (simp_all add: editTask_def)
  have c: "completed_upd markCompleted = Some True" "description_upd markCompleted = None"
    by (simp_all add: markCompleted_def)
  note ed = updateTask_frame [of "js ''b''" editTask exampleTasks]
  note mc = updateTask_frame [of "js ''b''" markCompleted exampleTasks]
  note zz = updateTask_frame [of "js ''zz''" markCompleted exampleTasks]
  from ed l(1) i0 have w0: "tasks (updateTask (js ''b'') editTask exampleTasks) ! 0 = tasks exampleTasks ! 0"
    by simp
  from ed l(2) i1 e(1) have w1: "id_task (tasks (updateTask (js ''b'') editTask exampleTasks) ! 1) = js ''b''"
    by metis
  from ed l(2) i1 e(2)
  have w2: "description (tasks (updateTask (js ''b'') editTask exampleTasks) ! 1) = js ''call dad''"
    by blast
  from ed l(2) i1 e(3) old(2)
  have w3: "completed (tasks (updateTask (js ''b'') editTask exampleTasks) ! 1) = False"
    by metis
  from ed l(2) i1 e(4)
  have w4: "priority (tasks (updateTask (js ''b'') editTask exampleTasks) ! 1) = js ''Low''"
    by blast
  from ed l(2) i1 e(5) old(3)
  have w5: "created_at (tasks (updateTask (js ''b'') editTask exampleTasks) ! 1) = js ''2024-01-02''"
    by metis
  from mc l(2) i1 c(1)
  have w6: "completed (tasks (updateTask (js ''b'') markCompleted exampleTasks) ! 1) = True"
    by blast
  from mc l(2) i1 c(2) old(1)
  have w7: "description (tasks (updateTask (js ''b'') markCompleted exampleTasks) ! 1) = js ''call mom''"
    by metis
  from zz n have w8: "updateTask (js ''zz'') markCompleted exampleTasks = exampleTasks"
    by blast
  from w0 w1 w2 w3 w4 w5 w6 w7 w8 show ?thesis
    by blast
qed

section \<open>The message log: results\<close>

lemma length_rowsOf_le: "length (rowsOf u log) \<le> length (rows log)"
  by (simp add: rowsOf_def)

lemma list_log_all: "list_log u (length (rows log)) 0 log = sort_key created (rowsOf u log)"
  using length_rowsOf_le [of u log] by (simp add: list_log_def)

lemma insort_key_snoc:
  "f x \<le> f y \<Longrightarrow> insort_key f x (zs @ [y]) = insort_key f x zs @ [y]"
  by (induction zs) auto

lemma sort_key_snoc:
  "\<forall>x \<in> set xs. f x \<le> f y \<Longrightarrow> sort_key f (xs @ [y]) = sort_key f xs @ [y]"
proof (induction xs)
  case Nil
  show ?case by simp
next
  case (Cons x xs)
  then have "sort_key f (xs @ [y]) = sort_key f xs @ [y]" and "f x \<le> f y"
    by simp_all
  then show ?case
    by (simp add: insort_key_snoc)
qed

lemma append_log_rowsOf:
  assumes "append_log now u body sndr log = Inr (m, log')"
  shows "rowsOf u log' = rowsOf u log @ [m] \<and> created m = now \<and>
         length (rows log') = Suc (length (rows log))"
  using assms by (auto simp: append_log_def rowsOf_def Let_def split: if_splits)

lemma list_log_append:
  assumes "append_log now u body sndr log = Inr (m, log')"
    and "\<forall>r \<in> set (rowsOf u log). created r \<le> now"
  shows "list_log u (length (rows log')) 0 log' = list_log u (length (rows log)) 0 log @ [m]"
proof -
  from append_log_rowsOf [OF assms(1)]
  have r: "rowsOf u log' = rowsOf u log @ [m]" and c: "created m = now"
    by simp_all
  from assms(2) c have "\<forall>x \<in> set (rowsOf u log). created x \<le> created m"
    by simp
  then have "sort_key created (rowsOf u log @ [m]) = sort_key created (rowsOf u log) @ [m]"
    by (rule sort_key_snoc)
  with r show ?thesis
    by (simp only: list_log_all)
qed

text \<open>
  C7. For every log and user, \<open>list_log\<close> returns a window (\<open>offset\<close> rows skipped, at
  most \<open>limit\<close> taken) of the listing of all the user's rows; it is ascending by
  creation time; the full listing holds exactly the user's rows, and rows of equal
  creation time stand in insertion order; so when the timestamps never decrease along
  the insertions the listing is the insertion order, and a message appended with a
  timestamp not before the earlier ones is listed last. An offset at or beyond the
  number of the user's rows gives the empty list.
\<close>

theorem list_log_ordered:
  "sorted (map created (list_log u limit offset log)) \<and>
   list_log u limit offset log = take limit (drop offset (list_log u (length (rows log)) 0 log)) \<and>
   mset (list_log u (length (rows log)) 0 log) = mset (rowsOf u log) \<and>
   (\<forall>t. filter (\<lambda>m. created m = t) (list_log u (length (rows log)) 0 log) =
          filter (\<lambda>m. created m = t) (rowsOf u log)) \<and>
   (sorted (map created (rowsOf u log)) \<longrightarrow>
      list_log u limit offset log = take limit (drop offset (rowsOf u log))) \<and>
   (\<forall>now body sndr m log'.
      append_log now u body sndr log = Inr (m, log') \<and>
      (\<forall>r \<in> set (rowsOf u log). created r \<le> now) \<longrightarrow>
      list_log u (length (rows log')) 0 log' = list_log u (length (rows log)) 0 log @ [m]) \<and>
   (length (rowsOf u log) \<le> offset \<longrightarrow> list_log u limit offset log = [])"
proof -
  let ?all = "sort_key created (rowsOf u log)"
  have srt: "sorted (map created ?all)"
    by (rule sorted_sort_key)
  have "sorted (take limit (drop offset (map created ?all)))"
    using srt by simp
  then have a: "sorted (map created (list_log u limit offset log))"
    by (simp add: list_log_def take_map drop_map)
  have b: "list_log u limit offset log =
      take limit (drop offset (list_log u (length (rows log)) 0 log))"
    by (simp add: list_log_all) (simp add: list_log_def)
  have c: "mset (list_log u (length (rows log)) 0 log) = mset (rowsOf u log)"
    by (simp add: list_log_all)
  have d: "filter (\<lambda>m. created m = t) (list_log u (length (rows log)) 0 log) =
      filter (\<lambda>m. created m = t) (rowsOf u log)" for t
    by (simp add: list_log_all sort_key_stable)
  have e: "list_log u limit offset log = take limit (drop offset (rowsOf u log))"
    if "sorted (map created (rowsOf u log))"
    using that by (simp add: list_log_def sort_key_id_if_sorted)
  have f: "list_log u limit offset log = []" if "length (rowsOf u log) \<le> offset"
    using that by (simp add: list_log_def)
  have g: "list_log u (length (rows log')) 0 log' = list_log u (length (rows log)) 0 log @ [m]"
    if "append_log now u body sndr log = Inr (m, log')"
      and "\<forall>r \<in> set (rowsOf u log). created r \<le> now" for now body sndr m log'
    using that by (rule list_log_append)
  from a b c d e f g show ?thesis
    by blast
qed

theorem list_log_ordered_witness:
  "map content_cm (list_log (js ''A'') 10 0 exampleLog) = [js ''second'', js ''first'', js ''third''] \<and>
   list_log (js ''A'') 10 3 exampleLog = [] \<and>
   sorted (map created (list_log (js ''A'') 10 0 exampleLog)) \<and>
   map content_cm (list_log (js ''B'') 10 0 exampleLog) = [js ''other''] \<and>
   map content_cm (list_log (js ''A'') 5 0
       (snd (projr (append_log 7 (js ''A'') (js ''fourth'') User exampleLog)))) =
     [js ''second'', js ''first'', js ''third'', js ''fourth'']"
proof -
  let ?m = "\<lparr>identifier_cm = 4, owner = js ''A'', content_cm = js ''fourth'', sender_cm = User,
             created = 7\<rparr>"
  let ?log' = "exampleLog\<lparr>rows := rows exampleLog @ [?m], next_identifier := 5\<rparr>"
  have r: "rowsOf (js ''A'') exampleLog =
      [\<lparr>identifier_cm = 0, owner = js ''A'', content_cm = js ''first'', sender_cm = User, created = 5\<rparr>,
       \<lparr>identifier_cm = 2, owner = js ''A'', content_cm = js ''second'', sender_cm = Assistant, created = 3\<rparr>,
       \<lparr>identifier_cm = 3, owner = js ''A'', content_cm = js ''third'', sender_cm = User, created = 5\<rparr>]"
    by (simp add: rowsOf_def exampleLog_def js_def)
  have rb: "rowsOf (js ''B'') exampleLog =
      [\<lparr>identifier_cm = 1, owner = js ''B'', content_cm = js ''other'', sender_cm = User, created = 4\<rparr>]"
    by (simp add: rowsOf_def exampleLog_def js_def)
  have l: "length (rowsOf (js ''A'') exampleLog) \<le> 3"
    by (simp add: r)
  have n: "length (rows exampleLog) = 4" "length (rows ?log') = 5"
    by (simp_all add: exampleLog_def)
  have v: "map content_cm (list_log (js ''A'') 10 0 exampleLog) =
      [js ''second'', js ''first'', js ''third'']"
    by (simp add: list_log_def r)
  have v4: "map content_cm (list_log (js ''A'') 4 0 exampleLog) =
      [js ''second'', js ''first'', js ''third'']"
    by (simp add: list_log_def r)
  have sb: "sorted (map created (rowsOf (js ''B'') exampleLog))"
    by (simp add: rb)
  have ap: "append_log 7 (js ''A'') (js ''fourth'') User exampleLog = Inr (?m, ?log')"
    by (simp add: append_log_def trim_def js_def isWhiteSpace_def exampleLog_def Let_def)
  have le: "\<forall>r \<in> set (rowsOf (js ''A'') exampleLog). created r \<le> 7"
    by (simp add: r)
  from list_log_ordered [of "js ''A''" 10 3 exampleLog] l
  have e: "list_log (js ''A'') 10 3 exampleLog = []"
    by blast
  from list_log_ordered [of "js ''A''" 10 0 exampleLog]
  have s: "sorted (map created (list_log (js ''A'') 10 0 exampleLog))"
    by blast
  from list_log_ordered [of "js ''B''" 10 0 exampleLog] sb
  have "list_log (js ''B'') 10 0 exampleLog = take 10 (drop 0 (rowsOf (js ''B'') exampleLog))"
    by blast
  then have b: "map content_cm (list_log (js ''B'') 10 0 exampleLog) = [js ''other'']"
    by (simp add: rb)
  from list_log_ordered [of "js ''A''" 10 0 exampleLog] ap le
  have "list_log (js ''A'') (length (rows ?log')) 0 ?log' =
      list_log (js ''A'') (length (rows exampleLog)) 0 exampleLog @ [?m]"
    by blast
  then have "map content_cm (list_log (js ''A'') 5 0 ?log') =
      [js ''second'', js ''first'', js ''third'', js ''fourth'']"
    by (simp only: n) (simp add: v4)
  then have f: "map content_cm (list_log (js ''A'') 5 0
       (snd (projr (append_log 7 (js ''A'') (js ''fourth'') User exampleLog)))) =
     [js ''second'', js ''first'', js ''third'', js ''fourth'']"
    by (simp only: ap sum.sel snd_conv)
  from v e s b f show ?thesis
    by blast
qed

section \<open>The tool executor: results\<close>

lemma executeAll_Cons:
  "executeAll u (c # cs) s =
     (fst (execute u c s) # fst (executeAll u cs (snd (execute u c s))),
      snd (executeAll u cs (snd (execute u c s))))"
  by (simp add: case_prod_beta Let_def)

lemma executeAll_length: "length (fst (executeAll u calls s)) = length calls"
proof (induction calls arbitrary: s)
  case Nil
  show ?case by simp
next
  case (Cons c cs)
  from Cons [of "snd (execute u c s)"] show ?case
    by (simp only: executeAll_Cons fst_conv list.size)
qed

lemma execute_tool: "tool (fst (execute u c s)) = tool_name c"
  by (simp add: execute_def Let_def split: option.splits sum.splits prod.splits)

lemma executeAll_tools: "map tool (fst (executeAll u calls s)) = map tool_name calls"
proof (induction calls arbitrary: s)
  case Nil
  show ?case by simp
next
  case (Cons c cs)
  from Cons [of "snd (execute u c s)"] execute_tool [of u c s] show ?case
    by (simp only: executeAll_Cons fst_conv list.map)
qed

lemma executeAll_store: "snd (executeAll u calls s) = fold (\<lambda>c st. snd (execute u c st)) calls s"
proof (induction calls arbitrary: s)
  case Nil
  show ?case by simp
next
  case (Cons c cs)
  from Cons [of "snd (execute u c s)"] show ?case
    by (simp only: executeAll_Cons snd_conv fold_simps)
qed

lemma executeAll_nth:
  "i < length calls \<Longrightarrow>
   fst (executeAll u calls s) ! i =
     fst (execute u (calls ! i) (snd (executeAll u (take i calls) s)))"
proof (induction calls arbitrary: s i)
  case Nil
  then show ?case by simp
next
  case (Cons c cs)
  show ?case
  proof (cases i)
    case 0
    then show ?thesis
      by (simp add: executeAll_Cons del: executeAll.simps(2))
  next
    case (Suc j)
    with Cons.prems have "j < length cs"
      by simp
    from Cons.IH [OF this, of "snd (execute u c s)"] Suc show ?thesis
      by (simp add: executeAll_Cons del: executeAll.simps(2))
  qed
qed

text \<open>
  C5. The tool loop returns one result per call, in the order of the calls; the result
  at each position is that of executing the call at that position on the store left by
  the calls before it, and the final store is the one the calls produce one after the
  other from the first to the last.
\<close>

theorem executeAll_sequential:
  "length (fst (executeAll u calls s)) = length calls \<and>
   map tool (fst (executeAll u calls s)) = map tool_name calls \<and>
   (\<forall>i < length calls.
      fst (executeAll u calls s) ! i =
        fst (execute u (calls ! i) (snd (executeAll u (take i calls) s)))) \<and>
   snd (executeAll u calls s) = fold (\<lambda>c st. snd (execute u c st)) calls s"
  using executeAll_length executeAll_tools executeAll_nth executeAll_store by blast

theorem executeAll_sequential_witness:
  "fst (executeAll (js ''u1'') [addMilk, listAll] emptyStore) ! 1 =
     \<lparr>tool = ''list_tasks'', outcome = Success (TaskList [milk])\<rparr>"
proof -
  have s1: "snd (executeAll (js ''u1'') (take 1 [addMilk, listAll]) emptyStore) =
      \<lparr>stored = [milk], next_id = 1\<rparr>"
    by (simp add: execute_def addMilk_def emptyStore_def create_def optionalPriority_def
        milk_def toString_def js_def Let_def)
  have r2: "fst (execute (js ''u1'') listAll \<lparr>stored = [milk], next_id = 1\<rparr>) =
      \<lparr>tool = ''list_tasks'', outcome = Success (TaskList [milk])\<rparr>"
    by (simp add: execute_def listAll_def list_store_def milk_def Let_def)
  from executeAll_sequential [of "js ''u1''" "[addMilk, listAll]" emptyStore] s1 r2
  show ?thesis
    by simp
qed

text \<open>The REST client of the frontend has the same default: an omitted priority is sent as "Medium".\<close>

lemma createTask_default_priority:
  "createTask userId d None = PostTask userId \<lparr>description_body = d, priority_body = js ''Medium''\<rparr>"
  by (simp add: createTask_def)

text \<open>
  C8. A call of \<open>add_task\<close> with a non-empty description and a priority that is omitted
  or one of the catalogue succeeds with a task of the caller that has this description
  and this priority, Medium when the priority was omitted; a call of \<open>list_tasks\<close> for
  the same user right after it returns a list that contains this task.
\<close>

theorem add_task_then_list_tasks:
  assumes "tool_name req = ''add_task''"
    and "map_of (arguments req) ''description'' = Some d"
    and "d \<noteq> []"
    and "optionalPriority (map_of (arguments req) ''priority'') = Inr p"
    and "tool_name lst = ''list_tasks''"
  shows "\<exists>t ts. outcome (fst (execute u req s)) = Success (TaskValue t) \<and>
           description_t t = d \<and>
           priority_t t = (case p of None \<Rightarrow> Medium | Some pr \<Rightarrow> pr) \<and>
           owner_id t = u \<and>
           outcome (fst (execute u lst (snd (execute u req s)))) = Success (TaskList ts) \<and>
           t \<in> set ts"
proof -
  let ?t = "\<lparr>task_id = toString (next_id s), owner_id = u, description_t = d,
             priority_t = (case p of None \<Rightarrow> Medium | Some pr \<Rightarrow> pr), completed_t = False\<rparr>"
  let ?s' = "s\<lparr>stored := stored s @ [?t], next_id := Suc (next_id s)\<rparr>"
  from assms have a: "execute u req s = (\<lparr>tool = ''add_task'', outcome = Success (TaskValue ?t)\<rparr>, ?s')"
    by (simp add: execute_def create_def Let_def)
  from assms have l: "execute u lst ?s' =
      (\<lparr>tool = ''list_tasks'', outcome = Success (TaskList (list_store u ?s'))\<rparr>, ?s')"
    by (simp add: execute_def Let_def)
  have m: "?t \<in> set (list_store u ?s')"
    by (simp add: list_store_def)
  from a l m show ?thesis
    by simp
qed

theorem add_task_then_list_tasks_witness:
  "outcome (fst (execute (js ''u1'') addMilk emptyStore)) = Success (TaskValue milk) \<and>
   priority_t milk = Medium \<and>
   outcome (fst (execute (js ''u1'') listAll (snd (execute (js ''u1'') addMilk emptyStore)))) =
     Success (TaskList [milk])"
proof -
  have h: "tool_name addMilk = ''add_task''"
    "map_of (arguments addMilk) ''description'' = Some (js ''buy milk'')"
    "js ''buy milk'' \<noteq> []"
    "optionalPriority (map_of (arguments addMilk) ''priority'') = Inr None"
    "tool_name listAll = ''list_tasks''"
    by (simp_all add: addMilk_def listAll_def optionalPriority_def js_def)
  have e: "execute (js ''u1'') addMilk emptyStore =
      (\<lparr>tool = ''add_task'', outcome = Success (TaskValue milk)\<rparr>, \<lparr>stored = [milk], next_id = 1\<rparr>)"
    by (simp add: execute_def addMilk_def emptyStore_def create_def optionalPriority_def
        milk_def toString_def js_def Let_def)
  have l: "outcome (fst (execute (js ''u1'') listAll \<lparr>stored = [milk], next_id = 1\<rparr>)) =
      Success (TaskList [milk])"
    by (simp add: execute_def listAll_def list_store_def milk_def Let_def)
  from add_task_then_list_tasks [OF h, of "js ''u1''" emptyStore] e l
  show ?thesis
    by (simp add: milk_def)
qed

end
